theory Spec2Isabelle
  imports Main "HOL-Library.Char_ord" "HOL-Library.List_Lexorder"
begin

section \<open>Time values\<close>

text \<open>
  A Go \<open>time.Time\<close> is an instant together with a location. The instant is kept as the
  number of nanoseconds since the zero time (January 1, year 1, 00:00:00 UTC), the origin
  \<open>Time.Truncate\<close> counts from. A location is either the \<open>time.UTC\<close> value itself
  or a zone with a constant offset in seconds east of UTC (\<open>time.FixedZone\<close>); zones whose
  offset changes over time are not part of this model. A \<open>time.Duration\<close> is a number
  of nanoseconds.
\<close>

datatype Location = UTC | FixedZone int

record Time =
  sinceZero :: int
  loc :: Location

type_synonym Duration = int

section \<open>Data model\<close>

text \<open>
  An error is a message (\<open>errors.Errorf\<close>, or an error of the operating system) or an
  error wrapped with a message (\<open>errors.Wrap\<close>, \<open>errors.Wrapf\<close>). As in the errors
  package, wrapping the nil error gives nil.
\<close>

datatype error = Errorf string | Wrapped string error

text \<open>The answers of \<open>os.Stat\<close>: a file information, or a failure that
  \<open>os.IsNotExist\<close> recognises or not.\<close>

datatype stat_error = ErrNotExist | ErrPermission | ErrOther string

record FileInfo =
  Size :: int
  ModTime :: Time
  ModeSymlink :: bool

datatype stat_result = StatOk FileInfo | StatErr stat_error

text \<open>
  The \<open>bufferedWriter\<close> of the source: a \<open>bufio.Writer\<close> of the default size over the
  \<open>*os.File\<close> that \<open>createFile\<close> opened. The model keeps the path the file was opened
  on, the number of bytes waiting in the buffer, whether the buffer's sticky error is set
  and whether the file has been closed. A write to an open file succeeds; a write to a
  closed file fails, and a failed flush sets the sticky error.
\<close>

record bufferedWriter =
  baseName :: string
  buffered :: nat
  failed :: bool
  closed :: bool

datatype Policy = Null

datatype Timer = Running | Stopped

text \<open>
  The \<open>File\<close> struct. \<open>cancelled\<close> stands for the context and its cancel function,
  \<open>nextCheck\<close> for the timer (running, or stopped and drained), \<open>pattern\<close> for the
  compiled strftime pattern. The clock is part of the environment below; the mutex and
  the unused \<open>lastCheck\<close> are left out.
\<close>

record File =
  backoff :: Policy
  baseTime :: Time
  cancelled :: bool
  checkInterval :: Duration
  "file" :: "bufferedWriter option"
  filename :: string
  generation :: int
  globPattern :: string
  pattern :: "Time \<Rightarrow> string"
  maxAge :: Duration
  maxInterval :: Duration
  maxFileSize :: int
  nextCheck :: Timer
  rotationCount :: int
  symlink :: string

text \<open>
  What the world outside answers during one call: whether the timer's channel holds a
  tick, the answer of \<open>os.Stat\<close> by path, the clock's readings (one for each function
  that calls \<open>Now\<close>), the outcome of \<open>createFile\<close> at each attempt the backoff
  controller grants (\<open>None\<close> is success), the first failure of the filesystem steps of
  \<open>makeSymlink\<close>, and the answers of \<open>filepath.Glob\<close>, \<open>os.Lstat\<close> and
  \<open>os.Readlink\<close>.
\<close>

record env =
  timerFired :: bool
  stat :: "string \<Rightarrow> stat_result"
  nowIntervalExceeded :: Time
  nowGetWriter :: Time
  nowPurgeOld :: Time
  createFile :: "error option list"
  symlinkSteps :: "error option"
  glob :: "string \<Rightarrow> error + string list"
  lstat :: "string \<Rightarrow> FileInfo option"
  readlink :: "string \<Rightarrow> string option"

text \<open>The options of \<open>NewFile\<close>, and its local variables that the options set. The
  clock that \<open>WithClock\<close> installs answers through the environment, so the option
  carries nothing here.\<close>

datatype Option =
    WithClock
  | WithCheckInterval Duration
  | WithMaxFileSize int
  | WithMaxInterval Duration
  | WithSymlink string
  | WithRotationCount int

record settings =
  optCheckInterval :: Duration
  optMaxFileSize :: int
  optMaxInterval :: Duration
  optSymlink :: string
  optRotationCount :: int

text \<open>The outcome of a \<open>Write\<close>: it returns a count and an error, or it panics.\<close>

datatype written = Returned nat "error option" | Panicked

section \<open>Time functions\<close>

definition nsPerSecond :: int where
  "nsPerSecond = 1000000000"

definition nsPerMinute :: int where
  "nsPerMinute = 60 * nsPerSecond"

definition nsPerHour :: int where
  "nsPerHour = 60 * nsPerMinute"

definition nsPerDay :: int where
  "nsPerDay = 24 * nsPerHour"

definition zoneOffset :: "Location \<Rightarrow> int" where
  "zoneOffset l = (case l of UTC \<Rightarrow> 0 | FixedZone secs \<Rightarrow> secs)"

text \<open>
  The wall-clock reading of a time: the nanoseconds since 0001-01-01 00:00:00 as the
  calendar of the time's own zone shows them. The calendar accessors of the Go library
  all read this number. \<open>CivilDay\<close> stands for the triple \<open>Year()\<close>, \<open>Month()\<close>,
  \<open>Day()\<close>: the civil date as a day count.
\<close>

definition wallClock :: "Time \<Rightarrow> int" where
  "wallClock t = sinceZero t + zoneOffset (loc t) * nsPerSecond"

definition CivilDay :: "Time \<Rightarrow> int" where
  "CivilDay t = wallClock t div nsPerDay"

definition Hour :: "Time \<Rightarrow> int" where
  "Hour t = (wallClock t mod nsPerDay) div nsPerHour"

definition Minute :: "Time \<Rightarrow> int" where
  "Minute t = (wallClock t mod nsPerHour) div nsPerMinute"

definition Second :: "Time \<Rightarrow> int" where
  "Second t = (wallClock t mod nsPerMinute) div nsPerSecond"

definition Nanosecond :: "Time \<Rightarrow> int" where
  "Nanosecond t = wallClock t mod nsPerSecond"

text \<open>\<open>time.Date\<close>: the time whose calendar fields, read in the given location, are the
  arguments.\<close>

definition Date :: "int \<Rightarrow> int \<Rightarrow> int \<Rightarrow> int \<Rightarrow> int \<Rightarrow> Location \<Rightarrow> Time" where
  "Date day h m s n l =
     \<lparr> sinceZero = day * nsPerDay + h * nsPerHour + m * nsPerMinute + s * nsPerSecond + n
                     - zoneOffset l * nsPerSecond,
       loc = l \<rparr>"

text \<open>\<open>Time.Truncate\<close> rounds the instant down to a multiple of \<open>d\<close> since the zero
  time, and returns the time unchanged when \<open>d \<le> 0\<close>.\<close>

definition Truncate :: "Time \<Rightarrow> Duration \<Rightarrow> Time" where
  "Truncate t d = (if d \<le> 0 then t else t\<lparr>sinceZero := sinceZero t - sinceZero t mod d\<rparr>)"

definition Add :: "Time \<Rightarrow> Duration \<Rightarrow> Time" where
  "Add t d = t\<lparr>sinceZero := sinceZero t + d\<rparr>"

definition Equal :: "Time \<Rightarrow> Time \<Rightarrow> bool" where
  "Equal t u = (sinceZero t = sinceZero u)"

definition After :: "Time \<Rightarrow> Time \<Rightarrow> bool" where
  "After t u = (sinceZero t > sinceZero u)"

definition zeroTime :: Time where
  "zeroTime = \<lparr> sinceZero = 0, loc = UTC \<rparr>"

text \<open>\<open>truncate\<close> of clock.go.\<close>

definition truncate :: "Time \<Rightarrow> Duration \<Rightarrow> Time" where
  "truncate t interval =
     (if loc t = UTC then Truncate t interval
      else
        let utc = Date (CivilDay t) (Hour t) (Minute t) (Second t) (Nanosecond t) UTC;
            utc' = Truncate utc interval
        in Date (CivilDay utc') (Hour utc') (Minute utc') (Second utc') (Nanosecond utc') (loc t))"

section \<open>Errors and the buffered handle\<close>

definition Wrap :: "error option \<Rightarrow> string \<Rightarrow> error option" where
  "Wrap err msg = (case err of None \<Rightarrow> None | Some e \<Rightarrow> Some (Wrapped msg e))"

definition IsNotExist :: "stat_error \<Rightarrow> bool" where
  "IsNotExist err = (err = ErrNotExist)"

definition bufSize :: nat where
  "bufSize = 4096"

definition errClosed :: error where
  "errClosed = Errorf ''file already closed''"

definition newBufferedWriter :: "string \<Rightarrow> bufferedWriter" where
  "newBufferedWriter name = \<lparr> baseName = name, buffered = 0, failed = False, closed = False \<rparr>"

definition Flush :: "bufferedWriter \<Rightarrow> bufferedWriter" where
  "Flush w =
     (if failed w then w
      else if buffered w = 0 then w
      else if closed w then w\<lparr>failed := True\<rparr>
      else w\<lparr>buffered := 0\<rparr>)"

text \<open>\<open>flushWriter\<close> calls \<open>Flush\<close> and \<open>Sync\<close> and drops both errors;
  \<open>finalizeWriter\<close> then calls \<open>Close\<close> and drops its error too.\<close>

definition flushWriter :: "bufferedWriter \<Rightarrow> bufferedWriter" where
  "flushWriter w = Flush w"

definition finalizeWriter :: "bufferedWriter \<Rightarrow> bufferedWriter" where
  "finalizeWriter w = (flushWriter w)\<lparr>closed := True\<rparr>"

text \<open>
  \<open>bufio.Writer.Write\<close>: with the sticky error set it writes nothing; data that fits the
  free part of the buffer is only copied there; larger data goes to the file, directly
  when the buffer is empty and after filling and flushing the buffer otherwise.
\<close>

definition WriteBuf :: "bufferedWriter \<Rightarrow> string \<Rightarrow> (nat \<times> error option) \<times> bufferedWriter" where
  "WriteBuf w p =
     (if failed w then ((0, Some errClosed), w)
      else if length p \<le> bufSize - buffered w
        then ((length p, None), w\<lparr>buffered := buffered w + length p\<rparr>)
      else if buffered w = 0 then
        (if closed w then ((0, Some errClosed), w\<lparr>failed := True\<rparr>)
         else ((length p, None), w))
      else
        let n = bufSize - buffered w;
            w1 = Flush (w\<lparr>buffered := bufSize\<rparr>);
            q = drop n p
        in if failed w1 then ((n, Some errClosed), w1)
           else if length q \<le> bufSize then ((n + length q, None), w1\<lparr>buffered := length q\<rparr>)
           else if closed w1 then ((n, Some errClosed), w1\<lparr>failed := True\<rparr>)
           else ((n + length q, None), w1))"

section \<open>The rotating file\<close>

subsection \<open>NewFile\<close>

definition defaultCheckInterval :: Duration where
  "defaultCheckInterval = 5 * nsPerMinute"

definition defaultSettings :: settings where
  "defaultSettings =
     \<lparr> optCheckInterval = 0, optMaxFileSize = 0, optMaxInterval = nsPerHour,
       optSymlink = [], optRotationCount = 0 \<rparr>"

fun applyOption :: "settings \<Rightarrow> Option \<Rightarrow> settings" where
  "applyOption s WithClock = s"
| "applyOption s (WithCheckInterval v) = s\<lparr>optCheckInterval := v\<rparr>"
| "applyOption s (WithMaxFileSize v) = s\<lparr>optMaxFileSize := v\<rparr>"
| "applyOption s (WithMaxInterval v) = s\<lparr>optMaxInterval := v\<rparr>"
| "applyOption s (WithSymlink v) = s\<lparr>optSymlink := v\<rparr>"
| "applyOption s (WithRotationCount v) = s\<lparr>optRotationCount := v\<rparr>"

text \<open>The two regular expressions of \<open>patternConversionRegexps\<close>, each replaced by a
  star from left to right.\<close>

definition isVerbChar :: "char \<Rightarrow> bool" where
  "isVerbChar c =
     (c = CHR ''%'' \<or> c = CHR ''+'' \<or> (CHR ''A'' \<le> c \<and> c \<le> CHR ''Z'')
      \<or> (CHR ''a'' \<le> c \<and> c \<le> CHR ''z''))"

fun replaceVerbs :: "string \<Rightarrow> string" where
  "replaceVerbs (a # b # rest) =
     (if a = CHR ''%'' \<and> isVerbChar b then CHR ''*'' # replaceVerbs rest
      else a # replaceVerbs (b # rest))"
| "replaceVerbs s = s"

fun squeezeStars :: "string \<Rightarrow> string" where
  "squeezeStars (a # b # rest) =
     (if a = CHR ''*'' \<and> b = CHR ''*'' then squeezeStars (b # rest)
      else a # squeezeStars (b # rest))"
| "squeezeStars s = s"

definition hasSuffix :: "string \<Rightarrow> string \<Rightarrow> bool" where
  "hasSuffix s suf = (length suf \<le> length s \<and> drop (length s - length suf) s = suf)"

definition toGlobPattern :: "string \<Rightarrow> string" where
  "toGlobPattern p =
     (let g = squeezeStars (replaceVerbs p)
      in if hasSuffix g ''*'' then g else g @ ''*'')"

text \<open>\<open>NewFile\<close>. The strftime compiler is a collaborator and a parameter here: it
  rejects the pattern or returns its formatting function.\<close>

definition NewFile ::
  "(string \<Rightarrow> error + (Time \<Rightarrow> string)) \<Rightarrow> string \<Rightarrow> Option list \<Rightarrow> error + File" where
  "NewFile strftimeNew p options =
     (let s = foldl applyOption defaultSettings options
      in case strftimeNew p of
           Inl err \<Rightarrow> Inl (Wrapped ''invalid strftime pattern'' err)
         | Inr fmt \<Rightarrow>
             let ci = (if optMaxFileSize s > 0 \<and> optCheckInterval s \<le> 0
                       then defaultCheckInterval else optCheckInterval s)
             in Inr \<lparr> backoff = Null,
                      baseTime = zeroTime,
                      cancelled = False,
                      checkInterval = ci,
                      file = None,
                      filename = [],
                      generation = 0,
                      globPattern = toGlobPattern p,
                      pattern = fmt,
                      maxAge = 0,
                      maxInterval = optMaxInterval s,
                      maxFileSize = optMaxFileSize s,
                      nextCheck = (if ci > 0 then Running else Stopped),
                      rotationCount = optRotationCount s,
                      symlink = optSymlink s \<rparr>)"

subsection \<open>Close and the two probes\<close>

definition Close :: "File \<Rightarrow> error option \<times> File" where
  "Close f =
     (let f1 = f\<lparr>cancelled := True\<rparr>
      in case file f1 of
           None \<Rightarrow> (None, f1)
         | Some w \<Rightarrow> (None, f1\<lparr>file := Some (finalizeWriter w)\<rparr>))"

definition sizeExceeded :: "File \<Rightarrow> env \<Rightarrow> bool \<times> File" where
  "sizeExceeded f e =
     (let checkSize = (nextCheck f = Running \<and> timerFired e);
          f1 = (if checkSize then f\<lparr>nextCheck := Running\<rparr> else f)
      in if \<not> checkSize then (False, f1)
         else case file f1 of
           None \<Rightarrow> (False, f1)
         | Some w \<Rightarrow>
             let f2 = f1\<lparr>file := Some (flushWriter w)\<rparr>
             in case stat e (filename f2) of
                  StatErr err \<Rightarrow> (if IsNotExist err then (True, f2) else (False, f2))
                | StatOk fi \<Rightarrow> (maxFileSize f2 \<ge> 0 \<and> Size fi \<ge> maxFileSize f2, f2))"

definition intervalExceeded :: "File \<Rightarrow> env \<Rightarrow> bool" where
  "intervalExceeded f e =
     (\<not> Equal (baseTime f) (truncate (nowIntervalExceeded e) (maxInterval f)))"

subsection \<open>The retention sweep\<close>

text \<open>The Go map \<open>stats\<close>, as a list of pairs with distinct keys.\<close>

definition mapDelete :: "string \<Rightarrow> (string \<times> FileInfo) list \<Rightarrow> (string \<times> FileInfo) list" where
  "mapDelete k m = filter (\<lambda>kv. fst kv \<noteq> k) m"

definition mapSet ::
  "string \<Rightarrow> FileInfo \<Rightarrow> (string \<times> FileInfo) list \<Rightarrow> (string \<times> FileInfo) list" where
  "mapSet k v m = (k, v) # mapDelete k m"

fun collectStats ::
  "(string \<Rightarrow> FileInfo option) \<Rightarrow> string list \<Rightarrow> (string \<times> FileInfo) list
     \<Rightarrow> (string \<times> FileInfo) list" where
  "collectStats lst [] stats = stats"
| "collectStats lst (path # rest) stats =
     (if hasSuffix path ''_lock'' \<or> hasSuffix path ''_symlink'' then collectStats lst rest stats
      else case lst path of
             None \<Rightarrow> collectStats lst rest stats
           | Some fi \<Rightarrow> collectStats lst rest (mapSet path fi stats))"

definition protectSymlink ::
  "File \<Rightarrow> env \<Rightarrow> (string \<times> FileInfo) list \<Rightarrow> (string \<times> FileInfo) list \<times> bool" where
  "protectSymlink f e stats =
     (if symlink f \<noteq> [] then
        (case readlink e (symlink f) of
           Some dst \<Rightarrow> (mapDelete dst stats, True)
         | None \<Rightarrow> (stats, False))
      else (stats, False))"

definition sortedPaths :: "(string \<times> FileInfo) list \<Rightarrow> string list" where
  "sortedPaths stats = sort (map fst stats)"

text \<open>The loop over the sorted paths: it fills \<open>toPurge\<close> and \<open>candidates\<close>.\<close>

fun classify ::
  "Duration \<Rightarrow> Time \<Rightarrow> (string \<times> FileInfo) list \<Rightarrow> string list
     \<Rightarrow> string list \<times> string list \<Rightarrow> string list \<times> string list" where
  "classify age cutoff stats [] acc = acc"
| "classify age cutoff stats (path # rest) (toPurge, candidates) =
     (case map_of stats path of
        None \<Rightarrow> classify age cutoff stats rest (toPurge, candidates)
      | Some fi \<Rightarrow>
          if age > 0 \<and> After (ModTime fi) cutoff
            then classify age cutoff stats rest (toPurge @ [path], candidates)
          else if ModeSymlink fi
            then classify age cutoff stats rest (toPurge, candidates)
          else classify age cutoff stats rest (toPurge, candidates @ [path]))"

definition countExcess :: "int \<Rightarrow> bool \<Rightarrow> string list \<Rightarrow> string list" where
  "countExcess count protected candidates =
     (if count > 0 then
        let lc = int (length candidates);
            c = (if protected then count - 1 else count)
        in if lc > c then take (nat (lc - c)) candidates else []
      else [])"

text \<open>\<open>purgeOld\<close> returns its error and the paths it hands to the removing goroutine.\<close>

definition purgeOld :: "File \<Rightarrow> env \<Rightarrow> error option \<times> string list" where
  "purgeOld f e =
     (case glob e (globPattern f) of
        Inl err \<Rightarrow> (Some (Wrapped ''failed to apply glob pattern'' err), [])
      | Inr matches \<Rightarrow>
          let sp = protectSymlink f e (collectStats (lstat e) matches []);
              stats = fst sp;
              protected = snd sp;
              cutoff = Add (nowPurgeOld e) (-1 * maxAge f);
              tc = classify (maxAge f) cutoff stats (sortedPaths stats) ([], []);
              toPurge = fst tc @ countExcess (rotationCount f) protected (snd tc)
          in (None, toPurge))"

subsection \<open>Rotation\<close>

text \<open>The retry loop of \<open>rotateFile\<close>: one iteration for each attempt the controller
  grants, until one succeeds. \<open>Inl\<close> carries \<open>lastError\<close> out of an exhausted loop.\<close>

fun attempts :: "error option list \<Rightarrow> error option \<Rightarrow> error option + unit" where
  "attempts [] lastError = Inl lastError"
| "attempts (Some err # rest) lastError = attempts rest (Some err)"
| "attempts (None # rest) lastError = Inr ()"

text \<open>The statements of the locked section of \<open>rotateFile\<close>, as the states they leave
  one after the other: the previous handle finalized, the new handle assigned, the new
  file name assigned.\<close>

definition swapStates :: "File \<Rightarrow> string \<Rightarrow> File list" where
  "swapStates f newFileName =
     (let f1 = (case file f of None \<Rightarrow> f | Some w \<Rightarrow> f\<lparr>file := Some (finalizeWriter w)\<rparr>);
          f2 = f1\<lparr>file := Some (newBufferedWriter newFileName)\<rparr>;
          f3 = f2\<lparr>filename := newFileName\<rparr>
      in [f1, f2, f3])"

text \<open>\<open>makeSymlink\<close> does nothing without a symlink path. Otherwise it takes the lock
  file, computes the link target, creates the link's directory, creates the staged link
  and renames it: steps in the filesystem, whose first failure, wrapped as the source wraps
  it, is the environment's answer.\<close>

definition makeSymlink :: "File \<Rightarrow> env \<Rightarrow> error option" where
  "makeSymlink f e = (if symlink f = [] then None else symlinkSteps e)"

text \<open>\<open>rotateFile\<close> returns its error, the state it leaves and the paths sent to removal.\<close>

definition rotateFile :: "File \<Rightarrow> env \<Rightarrow> string \<Rightarrow> error option \<times> File \<times> string list" where
  "rotateFile f e newFileName =
     (case attempts (createFile e) None of
        Inl lastError \<Rightarrow> (Wrap lastError (''failed to create file '' @ newFileName), f, [])
      | Inr u \<Rightarrow>
          let f' = last (swapStates f newFileName)
          in case makeSymlink f' e of
               Some err \<Rightarrow> (Some (Wrapped ''failed to create symlink'' err), f', [])
             | None \<Rightarrow> (None, f', snd (purgeOld f' e)))"

definition digitChar :: "nat \<Rightarrow> char" where
  "digitChar n = ''0123456789'' ! n"

fun natStr :: "nat \<Rightarrow> string" where
  "natStr n = (if n < 10 then [digitChar n] else natStr (n div 10) @ [digitChar (n mod 10)])"

declare natStr.simps [simp del]

definition intStr :: "int \<Rightarrow> string" where
  "intStr i = (if i < 0 then CHR ''-'' # natStr (nat (- i)) else natStr (nat i))"

text \<open>\<open>getWriter\<close> returns the writer or the error, the state and the paths sent to
  removal.\<close>

definition getWriter ::
  "File \<Rightarrow> env \<Rightarrow> (error + bufferedWriter option) \<times> File \<times> string list" where
  "getWriter f e =
     (let se = sizeExceeded f e;
          sizeEx = fst se;
          f1 = snd se;
          intervalEx = intervalExceeded f1 e
      in if sizeEx \<or> intervalEx then
           let f2 = f1\<lparr>baseTime := truncate (nowGetWriter e) (maxInterval f1)\<rparr>;
               fn = pattern f2 (baseTime f2);
               f3 = (if intervalEx then f2\<lparr>generation := 0\<rparr>
                     else if fn = filename f2 then f2\<lparr>generation := generation f2 + 1\<rparr>
                     else f2);
               fn' = (if \<not> intervalEx \<and> fn = filename f2
                      then fn @ ''.'' @ intStr (generation f3) else fn)
           in case rotateFile f3 e fn' of
                (Some err, f4, purged) \<Rightarrow> (Inl (Wrapped ''failed to rotate file'' err), f4, purged)
              | (None, f4, purged) \<Rightarrow> (Inr (file f4), f4, purged)
         else (Inr (file f1), f1, []))"

text \<open>\<open>Write\<close>. Calling \<open>Write\<close> on the nil writer is a nil dereference: a panic.\<close>

definition Write :: "File \<Rightarrow> env \<Rightarrow> string \<Rightarrow> written \<times> File \<times> string list" where
  "Write f e p =
     (case getWriter f e of
        (Inl err, f', purged) \<Rightarrow>
          (Returned 0 (Some (Wrapped ''failed to obtain file handle'' err)), f', purged)
      | (Inr None, f', purged) \<Rightarrow> (Panicked, f', purged)
      | (Inr (Some w), f', purged) \<Rightarrow>
          (case WriteBuf w p of
             ((n, err), w') \<Rightarrow> (Returned n err, f'\<lparr>file := Some w'\<rparr>, purged)))"

subsection \<open>Reading a call\<close>

text \<open>The condition under which \<open>getWriter\<close> rotates, and the state a \<open>Write\<close>
  leaves.\<close>

definition rotationDue :: "File \<Rightarrow> env \<Rightarrow> bool" where
  "rotationDue f e = (fst (sizeExceeded f e) \<or> intervalExceeded (snd (sizeExceeded f e)) e)"

definition afterWrite :: "written \<times> File \<times> string list \<Rightarrow> File" where
  "afterWrite r = fst (snd r)"

section \<open>A sample configuration\<close>

text \<open>
  The inputs of the concrete runs below. The pattern \<open>app.log\<close> has no conversion
  verb, so the strftime collaborator accepts it and formats every time as the pattern
  itself. \<open>sampleTime\<close> is 2021-01-01 00:00:00 UTC. \<open>fresh\<close> is the state \<open>NewFile\<close>
  returns for the sample options, \<open>opened\<close> the state after a first \<open>Write\<close> of
  eleven bytes. In \<open>quiet\<close> the timer has not ticked, the clock shows \<open>sampleTime\<close>,
  every file holds eleven bytes and the first attempt to create a file succeeds;
  \<open>sizeDue\<close> differs by a tick of the timer, \<open>failing\<close> by a clock one hour and five
  seconds later and a single attempt that fails, \<open>zeroClock\<close> by a clock that shows
  the zero time.
\<close>

definition sampleTime :: Time where
  "sampleTime = \<lparr> sinceZero = 63745056000 * nsPerSecond, loc = UTC \<rparr>"

definition plainPattern :: "string \<Rightarrow> error + (Time \<Rightarrow> string)" where
  "plainPattern p = Inr (\<lambda>t. p)"

definition sampleOptions :: "Option list" where
  "sampleOptions = [WithMaxFileSize 10, WithCheckInterval 100000000]"

definition fresh :: File where
  "fresh =
     \<lparr> backoff = Null, baseTime = zeroTime, cancelled = False, checkInterval = 100000000,
       file = None, filename = [], generation = 0, globPattern = ''app.log*'',
       pattern = (\<lambda>t. ''app.log''), maxAge = 0, maxInterval = nsPerHour, maxFileSize = 10,
       nextCheck = Running, rotationCount = 0, symlink = [] \<rparr>"

definition opened :: File where
  "opened =
     \<lparr> backoff = Null, baseTime = sampleTime, cancelled = False, checkInterval = 100000000,
       file = Some \<lparr> baseName = ''app.log'', buffered = 11, failed = False, closed = False \<rparr>,
       filename = ''app.log'', generation = 0, globPattern = ''app.log*'',
       pattern = (\<lambda>t. ''app.log''), maxAge = 0, maxInterval = nsPerHour, maxFileSize = 10,
       nextCheck = Running, rotationCount = 0, symlink = [] \<rparr>"

definition quiet :: env where
  "quiet =
     \<lparr> timerFired = False,
       stat = (\<lambda>path. StatOk \<lparr> Size = 11, ModTime = sampleTime, ModeSymlink = False \<rparr>),
       nowIntervalExceeded = sampleTime, nowGetWriter = sampleTime, nowPurgeOld = sampleTime,
       createFile = [None], symlinkSteps = None,
       glob = (\<lambda>pat. Inr []), lstat = (\<lambda>path. None), readlink = (\<lambda>path. None) \<rparr>"

definition sizeDue :: env where
  "sizeDue = quiet\<lparr>timerFired := True\<rparr>"

definition failing :: env where
  "failing =
     quiet\<lparr> nowIntervalExceeded := Add sampleTime (nsPerHour + 5 * nsPerSecond),
             nowGetWriter := Add sampleTime (nsPerHour + 5 * nsPerSecond),
             createFile := [Some (Errorf ''no space left on device'')] \<rparr>"

definition zeroClock :: env where
  "zeroClock = quiet\<lparr>nowIntervalExceeded := zeroTime, nowGetWriter := zeroTime\<rparr>"





section \<open>Properties of the time truncation\<close>




lemma wallClock_UTC: "loc t = UTC \<Longrightarrow> wallClock t = sinceZero t"
  by (simp add: wallClock_def zoneOffset_def)






section \<open>The sample run\<close>

lemmas time_consts = nsPerHour_def nsPerMinute_def nsPerSecond_def nsPerDay_def

lemmas sample_defs = fresh_def opened_def quiet_def failing_def sizeDue_def zeroClock_def
  sampleTime_def zeroTime_def

lemmas step_defs = Write_def getWriter_def sizeExceeded_def intervalExceeded_def rotateFile_def
  swapStates_def makeSymlink_def purgeOld_def protectSymlink_def sortedPaths_def countExcess_def
  WriteBuf_def bufSize_def newBufferedWriter_def finalizeWriter_def flushWriter_def Flush_def
  truncate_def Truncate_def Add_def Equal_def Wrap_def Let_def

lemma NewFile_fresh: "NewFile plainPattern ''app.log'' sampleOptions = Inr fresh"
  by (simp add: NewFile_def plainPattern_def sampleOptions_def fresh_def defaultSettings_def
      toGlobPattern_def hasSuffix_def Let_def)

lemma truncate_sampleTime: "truncate sampleTime nsPerHour = sampleTime"
  by (simp add: truncate_def Truncate_def sampleTime_def nsPerHour_def nsPerMinute_def nsPerSecond_def)

lemma Write_fresh: "Write fresh quiet ''0123456789X'' = (Returned 11 None, opened, [])"
  by (simp add: Write_def getWriter_def sizeExceeded_def intervalExceeded_def fresh_def quiet_def
      truncate_sampleTime [unfolded nsPerHour_def nsPerMinute_def nsPerSecond_def]
      sampleTime_def Equal_def zeroTime_def rotateFile_def swapStates_def makeSymlink_def
      purgeOld_def protectSymlink_def sortedPaths_def countExcess_def WriteBuf_def bufSize_def
      newBufferedWriter_def opened_def Let_def time_consts truncate_def Truncate_def Add_def)

section \<open>The size probe\<close>

text \<open>
  Claim C8. When the throttled check is due and a handle is open, \<open>sizeExceeded\<close> asks
  \<open>os.Stat\<close> for the current file by its path. If that fails, the probe answers what
  \<open>os.IsNotExist\<close> says of the failure: exceeded for a missing file, not exceeded for
  any other failure.
\<close>

theorem sizeExceeded_stat_failure:
  assumes "nextCheck f = Running" and "timerFired e" and "file f = Some w"
    and "stat e (filename f) = StatErr err"
  shows "fst (sizeExceeded f e) = IsNotExist err"
  using assms by (simp add: sizeExceeded_def Let_def)

theorem sizeExceeded_stat_failure_witness:
  "nextCheck opened = Running
   \<and> timerFired (quiet\<lparr>timerFired := True, stat := (\<lambda>path. StatErr ErrNotExist)\<rparr>)
   \<and> file opened = Some \<lparr> baseName = ''app.log'', buffered = 11, failed = False, closed = False \<rparr>
   \<and> fst (sizeExceeded opened (quiet\<lparr>timerFired := True, stat := (\<lambda>path. StatErr ErrNotExist)\<rparr>))
   \<and> \<not> fst (sizeExceeded opened (quiet\<lparr>timerFired := True, stat := (\<lambda>path. StatErr ErrPermission)\<rparr>))"
proof -
  let ?w = "\<lparr> baseName = ''app.log'', buffered = 11, failed = False, closed = False \<rparr>"
  let ?e1 = "quiet\<lparr>timerFired := True, stat := (\<lambda>path. StatErr ErrNotExist)\<rparr>"
  let ?e2 = "quiet\<lparr>timerFired := True, stat := (\<lambda>path. StatErr ErrPermission)\<rparr>"
  have r: "nextCheck opened = Running" and w: "file opened = Some ?w"
    by (simp_all add: opened_def)
  have t1: "timerFired ?e1" and t2: "timerFired ?e2"
    by simp_all
  have s1: "stat ?e1 (filename opened) = StatErr ErrNotExist"
    and s2: "stat ?e2 (filename opened) = StatErr ErrPermission"
    by simp_all
  show ?thesis
    using sizeExceeded_stat_failure [OF r t1 w s1] sizeExceeded_stat_failure [OF r t2 w s2] r w
    by (simp add: IsNotExist_def)
qed

text \<open>
  Claim C7 as stated fails: with a negative size limit, a due check, an open handle and a
  missing file the probe answers exceeded.
\<close>

theorem sizeExceeded_negative_limit_missing_file:
  "maxFileSize (opened\<lparr>maxFileSize := -1\<rparr>) \<le> 0
   \<and> fst (sizeExceeded (opened\<lparr>maxFileSize := -1\<rparr>)
          (quiet\<lparr>timerFired := True, stat := (\<lambda>path. StatErr ErrNotExist)\<rparr>))"
  by (simp add: sizeExceeded_def opened_def IsNotExist_def Let_def)

text \<open>
  Claim C7, amended. With \<open>maxFileSize \<le> 0\<close> the probe answers not exceeded whenever
  the check is not due (the timer is stopped or has not ticked) or no handle is open. With
  \<open>maxFileSize < 0\<close> it answers exceeded in one case only: the check is due, a handle is
  open and \<open>os.Stat\<close> reports the file missing.
\<close>

theorem sizeExceeded_disabled:
  assumes "maxFileSize f \<le> 0"
  shows "(\<not> (nextCheck f = Running \<and> timerFired e) \<longrightarrow> \<not> fst (sizeExceeded f e))
       \<and> (file f = None \<longrightarrow> \<not> fst (sizeExceeded f e))
       \<and> (maxFileSize f < 0 \<longrightarrow>
            fst (sizeExceeded f e) =
              (nextCheck f = Running \<and> timerFired e \<and> file f \<noteq> None
               \<and> stat e (filename f) = StatErr ErrNotExist))"
  using assms
  by (auto simp: sizeExceeded_def Let_def IsNotExist_def split: option.splits stat_result.splits)

theorem sizeExceeded_disabled_witness:
  "maxFileSize (opened\<lparr>maxFileSize := -1\<rparr>) \<le> 0
   \<and> \<not> fst (sizeExceeded (opened\<lparr>maxFileSize := -1\<rparr>) quiet)
   \<and> \<not> fst (sizeExceeded (opened\<lparr>maxFileSize := -1\<rparr>) sizeDue)"
proof -
  have h: "maxFileSize (opened\<lparr>maxFileSize := -1\<rparr>) \<le> 0"
    by simp
  show ?thesis
    using sizeExceeded_disabled [OF h, of quiet] sizeExceeded_disabled [OF h, of sizeDue]
    by (simp add: quiet_def sizeDue_def opened_def)
qed

lemma NewFile_timer_stopped:
  assumes "NewFile strftimeNew p options = Inr f"
  shows "nextCheck f = (if checkInterval f > 0 then Running else Stopped)
       \<and> (maxFileSize f > 0 \<longrightarrow> checkInterval f > 0)"
  using assms
  by (auto simp: NewFile_def Let_def defaultCheckInterval_def time_consts split: sum.splits if_splits)

section \<open>A rotation whose attempts all fail\<close>

lemma attempts_all_fail:
  "attempts (map Some errs) l = Inl (if errs = [] then l else Some (last errs))"
  by (induction errs arbitrary: l) auto

lemma snd_sizeExceeded:
  "snd (sizeExceeded f e) =
     (if nextCheck f = Running \<and> timerFired e
      then f\<lparr>file := map_option flushWriter (file f)\<rparr> else f)"
  by (cases "file f"; cases "stat e (filename f)")
     (auto simp: sizeExceeded_def Let_def split: option.splits stat_result.splits)

lemma sizeExceeded_no_tick: "\<not> timerFired e \<Longrightarrow> sizeExceeded f e = (False, f)"
  by (simp add: sizeExceeded_def Let_def)

lemma rotateFile_all_fail:
  assumes "createFile e = map Some errs" and "errs \<noteq> []"
  shows "rotateFile f e name =
           (Some (Wrapped (''failed to create file '' @ name) (last errs)), f, [])"
  using assms by (simp add: rotateFile_def attempts_all_fail Wrap_def)

lemma getWriter_not_due:
  assumes "\<not> rotationDue f e"
  shows "getWriter f e = (Inr (file (snd (sizeExceeded f e))), snd (sizeExceeded f e), [])"
  using assms by (simp add: getWriter_def rotationDue_def Let_def)

lemma getWriter_all_fail:
  assumes "rotationDue f e" and "createFile e = map Some errs" and "errs \<noteq> []"
  shows "getWriter f e =
     (let f1 = snd (sizeExceeded f e);
          bt = truncate (nowGetWriter e) (maxInterval f);
          fn = pattern f bt;
          bump = (\<not> intervalExceeded f1 e \<and> fn = filename f);
          g = (if intervalExceeded f1 e then 0 else if bump then generation f + 1 else generation f);
          name = (if bump then fn @ ''.'' @ intStr g else fn)
      in (Inl (Wrapped ''failed to rotate file''
                 (Wrapped (''failed to create file '' @ name) (last errs))),
          f1\<lparr>baseTime := bt, generation := g\<rparr>, []))"
proof -
  have m: "maxInterval (snd (sizeExceeded f e)) = maxInterval f"
    "pattern (snd (sizeExceeded f e)) = pattern f"
    "filename (snd (sizeExceeded f e)) = filename f"
    "generation (snd (sizeExceeded f e)) = generation f"
    by (simp_all add: snd_sizeExceeded)
  show ?thesis
    using assms(1)
    by (simp add: getWriter_def rotationDue_def Let_def m rotateFile_all_fail [OF assms(2,3)])
qed

lemma Write_error:
  "getWriter f e = (Inl err, f', purged) \<Longrightarrow>
   Write f e p = (Returned 0 (Some (Wrapped ''failed to obtain file handle'' err)), f', purged)"
  by (simp add: Write_def)

lemma rotationDue_failing: "rotationDue opened failing"
  by (simp add: rotationDue_def sample_defs step_defs time_consts)

text \<open>
  Claim C1 as stated fails: after a rotation whose only attempt fails, the file name is the
  previous one but \<open>baseTime\<close> has moved to the new slot.
\<close>

theorem failed_rotation_moves_baseTime:
  "rotationDue opened failing
   \<and> createFile failing = [Some (Errorf ''no space left on device'')]
   \<and> filename (afterWrite (Write opened failing ''x'')) = filename opened
   \<and> baseTime (afterWrite (Write opened failing ''x'')) \<noteq> baseTime opened"
  by (simp add: rotationDue_def afterWrite_def sample_defs step_defs time_consts)

text \<open>
  Claim C1, amended. If a \<open>Write\<close> triggers a rotation and every attempt to create the
  new file fails (there is at least one attempt), the \<open>Write\<close> returns zero bytes and an
  error that wraps the last creation error. The handle and the file name are those of
  before (the handle flushed if the size check ran); \<open>baseTime\<close> is already the
  truncation of the clock reading and \<open>generation\<close> is already reset or incremented,
  because \<open>getWriter\<close> assigns both before it calls \<open>rotateFile\<close>. A later call in the
  same slot, without a tick of the timer, therefore rotates nothing and gets the previous
  handle.
\<close>

theorem failed_rotation_outcome:
  assumes "rotationDue f e" and "createFile e = map Some errs" and "errs \<noteq> []"
  shows
    "let f1 = snd (sizeExceeded f e);
         bt = truncate (nowGetWriter e) (maxInterval f);
         fn = pattern f bt;
         bump = (\<not> intervalExceeded f1 e \<and> fn = filename f);
         g = (if intervalExceeded f1 e then 0 else if bump then generation f + 1 else generation f);
         name = (if bump then fn @ ''.'' @ intStr g else fn);
         f' = f1\<lparr>baseTime := bt, generation := g\<rparr>
     in Write f e p =
          (Returned 0 (Some (Wrapped ''failed to obtain file handle''
             (Wrapped ''failed to rotate file''
               (Wrapped (''failed to create file '' @ name) (last errs))))), f', [])
        \<and> file f' = file f1 \<and> filename f' = filename f
        \<and> (\<forall>e2. \<not> timerFired e2 \<and> Equal bt (truncate (nowIntervalExceeded e2) (maxInterval f))
               \<longrightarrow> getWriter f' e2 = (Inr (file f1), f', []))"
proof -
  define f1 where "f1 = snd (sizeExceeded f e)"
  define bt where "bt = truncate (nowGetWriter e) (maxInterval f)"
  define g where "g = (if intervalExceeded f1 e then 0
                      else if \<not> intervalExceeded f1 e \<and> pattern f bt = filename f
                      then generation f + 1 else generation f)"
  define name where "name = (if \<not> intervalExceeded f1 e \<and> pattern f bt = filename f
                            then pattern f bt @ ''.'' @ intStr g else pattern f bt)"
  define f' where "f' = f1\<lparr>baseTime := bt, generation := g\<rparr>"
  have gw: "getWriter f e =
      (Inl (Wrapped ''failed to rotate file''
              (Wrapped (''failed to create file '' @ name) (last errs))), f', [])"
    using getWriter_all_fail [OF assms]
    by (simp add: Let_def f1_def bt_def g_def name_def f'_def)
  have w: "Write f e p =
      (Returned 0 (Some (Wrapped ''failed to obtain file handle''
         (Wrapped ''failed to rotate file''
           (Wrapped (''failed to create file '' @ name) (last errs))))), f', [])"
    using gw by (rule Write_error)
  have m: "maxInterval f1 = maxInterval f" "filename f1 = filename f"
    by (simp_all add: f1_def snd_sizeExceeded)
  have later: "getWriter f' e2 = (Inr (file f1), f', [])"
    if "\<not> timerFired e2" "Equal bt (truncate (nowIntervalExceeded e2) (maxInterval f))" for e2
    using that
    by (simp add: getWriter_def sizeExceeded_no_tick intervalExceeded_def f'_def m Let_def)
  have "file f' = file f1" "filename f' = filename f"
    by (simp_all add: f'_def m)
  with w later show ?thesis
    unfolding Let_def f1_def [symmetric] bt_def [symmetric]
    by (simp add: g_def name_def f'_def)
qed

theorem failed_rotation_outcome_witness:
  "rotationDue opened failing
   \<and> createFile failing = map Some [Errorf ''no space left on device'']
   \<and> Write opened failing ''x'' =
       (Returned 0 (Some (Wrapped ''failed to obtain file handle''
          (Wrapped ''failed to rotate file''
            (Wrapped ''failed to create file app.log'' (Errorf ''no space left on device''))))),
        opened\<lparr>baseTime := Add sampleTime nsPerHour\<rparr>, [])"
proof -
  have c: "createFile failing = map Some [Errorf ''no space left on device'']"
    by (simp add: failing_def)
  have n: "[Errorf ''no space left on device''] \<noteq> []"
    by simp
  have "snd (sizeExceeded opened failing) = opened"
    by (simp add: snd_sizeExceeded failing_def quiet_def)
  moreover have "intervalExceeded opened failing"
    by (simp add: sample_defs step_defs time_consts)
  moreover have "truncate (nowGetWriter failing) (maxInterval opened) = Add sampleTime nsPerHour"
    by (simp add: sample_defs step_defs time_consts)
  moreover have "pattern opened (Add sampleTime nsPerHour) = ''app.log''"
    "generation opened = 0"
    by (simp_all add: opened_def)
  moreover have "opened\<lparr>baseTime := Add sampleTime nsPerHour, generation := 0\<rparr>
      = opened\<lparr>baseTime := Add sampleTime nsPerHour\<rparr>"
    by (simp add: opened_def)
  ultimately show ?thesis
    using failed_rotation_outcome [OF rotationDue_failing c n, of "''x''"] rotationDue_failing c
    by (simp add: Let_def)
qed

section \<open>Rotations by size within one slot\<close>

text \<open>
  Claim C3, evaluated on the sample run. The first \<open>Write\<close> creates \<open>app.log\<close>. With
  the size check due in the same slot, the second \<open>Write\<close> finds the templated name equal
  to the open file's name and rotates to \<open>app.log.1\<close> with generation 1. The third
  \<open>Write\<close>, again by size in the same slot, compares the templated name with
  \<open>app.log.1\<close>, finds them different, leaves the generation at 1 and rotates to
  \<open>app.log\<close>: the file the slot started with.
\<close>

theorem size_rotation_reuses_name:
  "filename (afterWrite (Write fresh quiet ''0123456789X'')) = ''app.log''
   \<and> afterWrite (Write fresh quiet ''0123456789X'') = opened
   \<and> \<not> intervalExceeded opened sizeDue \<and> fst (sizeExceeded opened sizeDue)
   \<and> filename (afterWrite (Write opened sizeDue ''0123456789X'')) = ''app.log.1''
   \<and> generation (afterWrite (Write opened sizeDue ''0123456789X'')) = 1
   \<and> \<not> intervalExceeded (afterWrite (Write opened sizeDue ''0123456789X'')) sizeDue
   \<and> fst (sizeExceeded (afterWrite (Write opened sizeDue ''0123456789X'')) sizeDue)
   \<and> filename (afterWrite (Write (afterWrite (Write opened sizeDue ''0123456789X'')) sizeDue
         ''0123456789X'')) = ''app.log''
   \<and> generation (afterWrite (Write (afterWrite (Write opened sizeDue ''0123456789X'')) sizeDue
         ''0123456789X'')) = 1"
  by (simp add: afterWrite_def Write_fresh)
     (simp add: afterWrite_def sample_defs step_defs time_consts intStr_def natStr.simps
        digitChar_def IsNotExist_def)

section \<open>The swap of the handles\<close>

text \<open>
  Claim C5, evaluated on the locked section of \<open>rotateFile\<close>. When a handle is open, the
  first state of the swap still has the previous handle installed and that handle is
  already finalized, hence closed; the new handle is installed in the state after it.
\<close>

theorem swap_closes_before_install:
  "map file (swapStates (f\<lparr>file := Some w\<rparr>) name) =
     [Some (finalizeWriter w), Some (newBufferedWriter name), Some (newBufferedWriter name)]
   \<and> closed (finalizeWriter w) \<and> \<not> closed (newBufferedWriter name)"
  by (simp add: swapStates_def finalizeWriter_def newBufferedWriter_def Let_def)

section \<open>Close\<close>

lemma finalizeWriter_idem: "finalizeWriter (finalizeWriter w) = finalizeWriter w"
  by (simp add: finalizeWriter_def flushWriter_def Flush_def)

lemma Close_Close: "Close (snd (Close f)) = Close f"
  by (cases "file f") (simp_all add: Close_def Let_def finalizeWriter_idem)

lemma finalizeWriter_healthy:
  "\<not> failed w \<Longrightarrow> \<not> closed w \<Longrightarrow>
   finalizeWriter w = w\<lparr>buffered := 0, closed := True\<rparr>"
  by (simp add: finalizeWriter_def flushWriter_def Flush_def)

lemma WriteBuf_fits:
  "\<not> failed w \<Longrightarrow> length p \<le> bufSize - buffered w \<Longrightarrow>
   WriteBuf w p = ((length p, None), w\<lparr>buffered := buffered w + length p\<rparr>)"
  by (simp add: WriteBuf_def)

text \<open>
  Claim C9 as stated fails: after \<open>Close\<close>, a \<open>Write\<close> of one byte in the same slot
  returns the count 1 and no error. The byte is copied into the buffer of the closed
  handle.
\<close>

theorem Write_after_Close_succeeds:
  "fst (Close opened) = None
   \<and> cancelled (snd (Close opened))
   \<and> file (snd (Close opened)) =
       Some \<lparr> baseName = ''app.log'', buffered = 0, failed = False, closed = True \<rparr>
   \<and> fst (Write (snd (Close opened)) quiet ''y'') = Returned 1 None"
  by (simp add: Close_def sample_defs step_defs time_consts)

text \<open>
  Claim C9, amended. \<open>Close\<close> never returns an error, has no panicking step and is
  idempotent: a second \<open>Close\<close> returns the same as the first and leaves the same state.
  \<open>Write\<close> has no test for a closed writer. After \<open>Close\<close> of a writer whose handle was
  open and healthy, a \<open>Write\<close> in the same slot, without a tick of the timer and of at
  most the buffer's size, returns the length of the data and no error.
\<close>

theorem Close_idempotent_Write_unguarded:
  "fst (Close f) = None
   \<and> Close (snd (Close f)) = Close f
   \<and> (\<forall>e w p. file f = Some w \<and> \<not> failed w \<and> \<not> closed w
          \<and> \<not> timerFired e \<and> \<not> intervalExceeded f e \<and> length p \<le> bufSize
        \<longrightarrow> fst (Write (snd (Close f)) e p) = Returned (length p) None)"
proof -
  have a: "fst (Close f) = None"
    by (cases "file f") (simp_all add: Close_def Let_def)
  have c: "fst (Write (snd (Close f)) e p) = Returned (length p) None"
    if "file f = Some w" "\<not> failed w" "\<not> closed w" "\<not> timerFired e"
      "\<not> intervalExceeded f e" "length p \<le> bufSize" for e w p
  proof -
    let ?g = "snd (Close f)"
    have g: "?g = f\<lparr>cancelled := True, file := Some (w\<lparr>buffered := 0, closed := True\<rparr>)\<rparr>"
      using that(1-3) by (simp add: Close_def Let_def finalizeWriter_healthy)
    have "\<not> intervalExceeded ?g e"
      using that(5) by (simp add: g intervalExceeded_def)
    then have "getWriter ?g e = (Inr (file ?g), ?g, [])"
      using that(4) by (simp add: getWriter_def sizeExceeded_no_tick Let_def)
    then show ?thesis
      using that(2,6) by (simp add: Write_def g WriteBuf_fits)
  qed
  show ?thesis
    using a c Close_Close by blast
qed

theorem Close_idempotent_Write_unguarded_witness:
  "file opened = Some \<lparr> baseName = ''app.log'', buffered = 11, failed = False, closed = False \<rparr>
   \<and> \<not> timerFired quiet \<and> \<not> intervalExceeded opened quiet \<and> length ''yes'' \<le> bufSize
   \<and> fst (Close (snd (Close opened))) = None
   \<and> fst (Write (snd (Close opened)) quiet ''yes'') = Returned 3 None"
proof -
  let ?w = "\<lparr> baseName = ''app.log'', buffered = 11, failed = False, closed = False \<rparr>"
  have h: "file opened = Some ?w \<and> \<not> failed ?w \<and> \<not> closed ?w
          \<and> \<not> timerFired quiet \<and> \<not> intervalExceeded opened quiet \<and> length ''yes'' \<le> bufSize"
    by (simp add: sample_defs step_defs time_consts)
  have "fst (Close (snd (Close opened))) = None"
    using Close_idempotent_Write_unguarded [of opened] by simp
  moreover have "fst (Write (snd (Close opened)) quiet ''yes'') = Returned (length ''yes'') None"
    using Close_idempotent_Write_unguarded [of opened] h by blast
  ultimately show ?thesis
    using h by simp
qed

section \<open>Construction and the first Write\<close>

lemma attempts_success: "None \<in> set xs \<Longrightarrow> attempts xs l = Inr ()"
  by (induction xs l rule: attempts.induct) auto

lemma NewFile_fields:
  assumes "NewFile strftimeNew p options = Inr f"
  shows "file f = None" "filename f = []" "baseTime f = zeroTime" "backoff f = Null"
    "maxAge f = 0" "\<not> cancelled f" "generation f = 0"
  using assms by (auto simp: NewFile_def Let_def split: sum.splits)

lemma sizeExceeded_no_handle: "file f = None \<Longrightarrow> fst (sizeExceeded f e) = False"
  by (simp add: sizeExceeded_def Let_def)

lemma sizeExceeded_no_handle_state:
  "file f = None \<Longrightarrow> snd (sizeExceeded f e) = f"
  by (simp add: snd_sizeExceeded)

lemma rotateFile_success:
  assumes "None \<in> set (createFile e)"
  shows "filename (fst (snd (rotateFile f e name))) = name
       \<and> file (fst (snd (rotateFile f e name))) = Some (newBufferedWriter name)
       \<and> baseTime (fst (snd (rotateFile f e name))) = baseTime f
       \<and> generation (fst (snd (rotateFile f e name))) = generation f"
  using assms
  by (cases "file f")
     (auto simp: rotateFile_def attempts_success swapStates_def Let_def split: option.splits)

lemma Write_state_fields:
  "filename (afterWrite (Write f e p)) = filename (fst (snd (getWriter f e)))
   \<and> baseTime (afterWrite (Write f e p)) = baseTime (fst (snd (getWriter f e)))
   \<and> generation (afterWrite (Write f e p)) = generation (fst (snd (getWriter f e)))
   \<and> (file (fst (snd (getWriter f e))) \<noteq> None \<longrightarrow> file (afterWrite (Write f e p)) \<noteq> None)"
  by (cases "getWriter f e" rule: prod_cases3)
     (auto simp: Write_def afterWrite_def split: sum.splits option.splits prod.splits)

text \<open>
  Claim C10 as stated fails: with a clock that shows the zero time, the truncated reading
  equals the initial \<open>baseTime\<close>, the first \<open>Write\<close> rotates nothing, no file is
  created and the call ends in the nil dereference.
\<close>

theorem first_Write_at_zero_time_panics:
  "NewFile plainPattern ''app.log'' sampleOptions = Inr fresh
   \<and> \<not> rotationDue fresh zeroClock
   \<and> fst (Write fresh zeroClock ''x'') = Panicked
   \<and> file (afterWrite (Write fresh zeroClock ''x'')) = None"
  by (simp add: NewFile_fresh)
     (simp add: rotationDue_def afterWrite_def sample_defs step_defs time_consts)

text \<open>
  Claim C10, amended. \<open>NewFile\<close> opens no handle and touches no file: the state it
  returns has no active writer, no file name and the zero \<open>baseTime\<close>; the backoff
  policy is the null policy and \<open>maxAge\<close> is zero, whatever the options. The first
  \<open>Write\<close> rotates exactly when the truncation of the clock reading is not the zero
  instant; when it rotates and an attempt to create the file succeeds, the writer
  afterwards holds a handle on the file named by the pattern at the truncated reading,
  with generation 0.
\<close>

theorem NewFile_opens_nothing:
  assumes "NewFile strftimeNew p options = Inr f"
  shows "file f = None \<and> filename f = [] \<and> baseTime f = zeroTime
       \<and> backoff f = Null \<and> maxAge f = 0
       \<and> (\<forall>e. rotationDue f e
              = (sinceZero (truncate (nowIntervalExceeded e) (maxInterval f)) \<noteq> 0))
       \<and> (\<forall>e data. rotationDue f e \<and> None \<in> set (createFile e) \<longrightarrow>
              file (afterWrite (Write f e data)) \<noteq> None
            \<and> filename (afterWrite (Write f e data))
                = pattern f (truncate (nowGetWriter e) (maxInterval f))
            \<and> baseTime (afterWrite (Write f e data)) = truncate (nowGetWriter e) (maxInterval f)
            \<and> generation (afterWrite (Write f e data)) = 0)"
proof -
  note nf = NewFile_fields [OF assms]
  have due: "rotationDue f e = (sinceZero (truncate (nowIntervalExceeded e) (maxInterval f)) \<noteq> 0)"
    for e
    using nf(1,3)
    by (auto simp: rotationDue_def sizeExceeded_no_handle sizeExceeded_no_handle_state
        intervalExceeded_def Equal_def zeroTime_def)
  have first: "file (afterWrite (Write f e data)) \<noteq> None
      \<and> filename (afterWrite (Write f e data))
          = pattern f (truncate (nowGetWriter e) (maxInterval f))
      \<and> baseTime (afterWrite (Write f e data)) = truncate (nowGetWriter e) (maxInterval f)
      \<and> generation (afterWrite (Write f e data)) = 0"
    if d: "rotationDue f e" and c: "None \<in> set (createFile e)" for e data
  proof -
    define bt where "bt = truncate (nowGetWriter e) (maxInterval f)"
    define f3 where "f3 = f\<lparr>baseTime := bt, generation := 0\<rparr>"
    have ie: "intervalExceeded f e"
      using d nf(1) by (simp add: rotationDue_def sizeExceeded_no_handle sizeExceeded_no_handle_state)
    have gw: "fst (snd (getWriter f e)) = fst (snd (rotateFile f3 e (pattern f bt)))"
      using ie nf(1)
      by (simp add: getWriter_def sizeExceeded_no_handle sizeExceeded_no_handle_state Let_def
          f3_def bt_def split: prod.splits option.splits)
    have rs: "filename (fst (snd (rotateFile f3 e (pattern f bt)))) = pattern f bt
       \<and> file (fst (snd (rotateFile f3 e (pattern f bt)))) = Some (newBufferedWriter (pattern f bt))
       \<and> baseTime (fst (snd (rotateFile f3 e (pattern f bt)))) = baseTime f3
       \<and> generation (fst (snd (rotateFile f3 e (pattern f bt)))) = generation f3"
      using c by (rule rotateFile_success)
    show ?thesis
      using Write_state_fields [of f e data] rs
      by (simp add: gw f3_def bt_def)
  qed
  show ?thesis
    using nf(1-5) due first by blast
qed

theorem NewFile_opens_nothing_witness:
  "NewFile plainPattern ''app.log'' sampleOptions = Inr fresh
   \<and> file fresh = None \<and> maxAge fresh = 0 \<and> backoff fresh = Null
   \<and> rotationDue fresh quiet \<and> None \<in> set (createFile quiet)
   \<and> filename (afterWrite (Write fresh quiet ''0123456789X'')) = ''app.log''
   \<and> file (afterWrite (Write fresh quiet ''0123456789X'')) \<noteq> None"
proof -
  have d: "rotationDue fresh quiet"
    by (simp add: rotationDue_def sample_defs step_defs time_consts)
  have c: "None \<in> set (createFile quiet)"
    by (simp add: quiet_def)
  have t: "pattern fresh (truncate (nowGetWriter quiet) (maxInterval fresh)) = ''app.log''"
    by (simp add: fresh_def)
  from NewFile_opens_nothing [OF NewFile_fresh]
  have "file fresh = None \<and> maxAge fresh = 0 \<and> backoff fresh = Null"
    and "\<forall>e data. rotationDue fresh e \<and> None \<in> set (createFile e) \<longrightarrow>
              file (afterWrite (Write fresh e data)) \<noteq> None
            \<and> filename (afterWrite (Write fresh e data))
                = pattern fresh (truncate (nowGetWriter e) (maxInterval fresh))
            \<and> baseTime (afterWrite (Write fresh e data))
                = truncate (nowGetWriter e) (maxInterval fresh)
            \<and> generation (afterWrite (Write fresh e data)) = 0"
    by blast+
  then show ?thesis
    using d c t NewFile_fresh by auto
qed

section \<open>Properties of the retention sweep\<close>
























end
